theory Spec2Isabelle
  imports Complex_Main
begin

section \<open>Python values shared by the models\<close>

text \<open>
  The exceptions the modelled methods raise. \<open>Exception\<close> carries the start of the
  message the source passes to \<^verbatim>\<open>Exception(...)\<close>. A method that can raise after it has
  changed the object returns the pair of the exception (if any) and the object as the
  exception leaves it.

  Python floats are modelled as reals and their arithmetic as exact, except in
  \<open>steering_translation\<close>, whose operations are rounded to doubles.
\<close>

datatype py_error =
    ValueError
  | TypeError
  | NameError
  | ZeroDivisionError
  | Exception string

text \<open>
  \<^verbatim>\<open>math.isclose(a, b, abs_tol=t)\<close>, with the default relative tolerance \<open>1e-09\<close>.
\<close>

definition isclose :: "real \<Rightarrow> real \<Rightarrow> real \<Rightarrow> bool" where
  "isclose a b abs_tol = (\<bar>a - b\<bar> \<le> max (1 / 10 ^ 9 * max \<bar>a\<bar> \<bar>b\<bar>) abs_tol)"

text \<open>\<^verbatim>\<open>int(x)\<close> of a float: truncation toward zero.\<close>

definition py_int :: "real \<Rightarrow> int" where
  "py_int x = (if 0 \<le> x then \<lfloor>x\<rfloor> else \<lceil>x\<rceil>)"

section \<open>hardware/irq\_clock.py: the callback registry\<close>

text \<open>
  A callback is a callable object; the model keeps its identity. The argument of
  \<open>add_callback\<close> and \<open>remove_callback\<close> is \<open>None\<close> for Python's \<^verbatim>\<open>None\<close>
  (not callable, and false in a condition).
\<close>

type_synonym callback = nat

record irq_clock =
  callbacks :: "callback list"
  lf_callbacks :: "callback list"

definition add_callback :: "irq_clock \<Rightarrow> callback option \<Rightarrow> py_error option \<times> irq_clock" where
  "add_callback self cb =
     (case cb of
        None \<Rightarrow> (Some (Exception ''callback argument is not a function.''), self)
      | Some f \<Rightarrow>
          if f \<in> set (callbacks self) then (Some (Exception ''callback already exists.''), self)
          else (None, self\<lparr>callbacks := callbacks self @ [f]\<rparr>))"

text \<open>
  \<^verbatim>\<open>self.__callbacks.remove(callback)\<close>: \<^verbatim>\<open>list.remove\<close> deletes the first occurrence
  and raises \<^verbatim>\<open>ValueError\<close> when there is none.
\<close>

definition remove_callback :: "irq_clock \<Rightarrow> callback option \<Rightarrow> py_error option \<times> irq_clock" where
  "remove_callback self cb =
     (case cb of
        None \<Rightarrow> (Some TypeError, self)
      | Some f \<Rightarrow>
          if f \<in> set (callbacks self) then (None, self\<lparr>callbacks := remove1 f (callbacks self)\<rparr>)
          else (Some ValueError, self))"

section \<open>hardware/motion\_controller.py\<close>

subsection \<open>Collaborator types\<close>

text \<open>
  Modelled from the spec: \<^verbatim>\<open>core/orientation.py\<close> is not among the sources. An
  orientation names a drivetrain position and has a side (port, starboard or centre).
  The source uses \<^verbatim>\<open>PORT\<close>, \<^verbatim>\<open>STBD\<close>, \<^verbatim>\<open>CNTR\<close> and \<^verbatim>\<open>SFWD\<close> by name.
\<close>

datatype Orientation = PORT | STBD | CNTR | PFWD | SFWD | PAFT | SAFT

fun side :: "Orientation \<Rightarrow> Orientation" where
  "side PORT = PORT"
| "side PFWD = PORT"
| "side PAFT = PORT"
| "side STBD = STBD"
| "side SFWD = STBD"
| "side SAFT = STBD"
| "side CNTR = CNTR"

text \<open>
  Modelled from the spec: \<^verbatim>\<open>core/steering_mode.py\<close> is not among the sources. The
  steering mode is one of AFRS, ROTATE and SKID, the three members the controller
  names; \<open>OTHER\<close> stands for any further value a caller can pass, by its name.
\<close>

datatype SteeringMode = AFRS | ROTATE | SKID | OTHER string

datatype Rotation = STOPPED | CLOCKWISE | COUNTER_CLOCKWISE

datatype Sound = CHIRP_1 | ZZT | KLAXON

text \<open>
  What the controller asks of its collaborators (the stop handler, the motor controller,
  the sound player), in the order it asks. \<open>Reposition\<close> records one call of the
  controller's own \<open>reposition\<close>.
\<close>

datatype action =
    StopHandler_halt
  | StopHandler_stop
  | SetSpeed Orientation real
  | SetMotorSpeed Orientation real
  | Rotate Rotation
  | Reposition SteeringMode
  | Play Sound
  | InstallSigintHandler
  | MotorController_stop
  | MotorController_disable
  | ServoController_disable

subsection \<open>process\_message: the BUMPER branch\<close>

text \<open>
  The message's value is the sensor data; of an event the branch reads the priority
  only (4 for a contact bumper, 10 for an oblique one, by the table the source quotes).
\<close>

record event =
  event_name :: string
  priority :: int

record sensor_data =
  events :: "event list"
  fop_cm :: int
  fos_cm :: int

text \<open>
  \<^verbatim>\<open>_priority = 0\<close>, then \<^verbatim>\<open>_priority = min(_priority, _event.priority)\<close> for every event.
\<close>

fun bumper_priority :: "int \<Rightarrow> event list \<Rightarrow> int" where
  "bumper_priority p [] = p"
| "bumper_priority p (e # es) = bumper_priority (min p (priority e)) es"

definition process_message_BUMPER :: "sensor_data \<Rightarrow> action" where
  "process_message_BUMPER sd =
     (let p = bumper_priority 0 (events sd)
      in if p = 10 then StopHandler_halt else StopHandler_stop)"

subsection \<open>Steering geometry\<close>

record config =
  half_length :: real
  half_width :: real
  wheel_offset :: real
  afrs_max_ratio :: real

definition radians :: "real \<Rightarrow> real" where
  "radians d = d * pi / 180"

definition degrees :: "real \<Rightarrow> real" where
  "degrees r = r * 180 / pi"

text \<open>\<^verbatim>\<open>math.atan2(y, x)\<close>: the angle of the point \<open>(x, y)\<close>, in \<open>(-pi, pi]\<close>.\<close>

definition atan2 :: "real \<Rightarrow> real \<Rightarrow> real" where
  "atan2 y x =
     (if 0 < x then arctan (y / x)
      else if x < 0 then (if 0 \<le> y then arctan (y / x) + pi else arctan (y / x) - pi)
      else if 0 < y then pi / 2
      else if y < 0 then - (pi / 2)
      else 0)"

definition calculate_afrs_steering :: "config \<Rightarrow> real \<Rightarrow> py_error + real" where
  "calculate_afrs_steering cfg inside_steering_angle =
     (if inside_steering_angle = 0 then Inr 0
      else
        let inside_steering_rads = radians inside_steering_angle;
            t = tan inside_steering_rads
        in if t = 0 then Inl ZeroDivisionError
           else
             let inside_distance = half_length cfg / t;
                 inside_hyp = sqrt ((half_length cfg)\<^sup>2 + inside_distance\<^sup>2);
                 inside_radius = inside_hyp - wheel_offset cfg;
                 outside_distance = inside_distance + half_width cfg * 2;
                 outside_hyp = sqrt (outside_distance\<^sup>2 + (half_length cfg)\<^sup>2);
                 outside_radius = outside_hyp + wheel_offset cfg;
                 outside_steering_rads = atan2 (half_length cfg) outside_distance
             in Inr (degrees outside_steering_rads))"

subsection \<open>The steering ratio, in double precision\<close>





subsection \<open>Motors and their named speed multipliers\<close>

text \<open>
  Modelled from the spec: \<^verbatim>\<open>hardware/motor.py\<close> is not among the sources. A motor has
  an orientation, a target speed and a mapping from multiplier name to multiplier
  function. Installing a name that is present is refused; removing a name that is
  absent does nothing. The functions are closures over the controller; the model keeps
  which closure a name holds.
\<close>

datatype multiplier = port_steering_lambda | stbd_steering_lambda | other_lambda nat

record motor =
  orientation :: Orientation
  target_speed :: real
  speed_multipliers :: "string \<rightharpoonup> multiplier"

definition has_speed_multiplier :: "motor \<Rightarrow> string \<Rightarrow> bool" where
  "has_speed_multiplier m name = (speed_multipliers m name \<noteq> None)"

definition add_speed_multiplier :: "motor \<Rightarrow> string \<Rightarrow> multiplier \<Rightarrow> py_error + motor" where
  "add_speed_multiplier m name f =
     (if has_speed_multiplier m name then Inl (Exception ''duplicate speed multiplier'')
      else Inr (m\<lparr>speed_multipliers := (speed_multipliers m)(name \<mapsto> f)\<rparr>))"

definition remove_speed_multiplier :: "motor \<Rightarrow> string \<Rightarrow> motor" where
  "remove_speed_multiplier m name = m\<lparr>speed_multipliers := (speed_multipliers m)(name := None)\<rparr>"

definition clear_speed_multipliers :: "motor \<Rightarrow> motor" where
  "clear_speed_multipliers m = m\<lparr>speed_multipliers := Map.empty\<rparr>"

subsection \<open>The Chadburn enumeration\<close>

text \<open>
  \<^verbatim>\<open>core/chadburn.py\<close> is not among the sources. A level has an index (\<open>num\<close>) and a
  speed. The enumeration is a parameter of the model: its two named levels that
  \<open>increment_speed\<close> compares with, the closest-value lookup, and the lookup by index
  (\<open>None\<close> when it raises).
\<close>

record Chadburn =
  num :: int
  speed :: real

record chadburn_enum =
  FULL_ASTERN :: Chadburn
  FULL_AHEAD :: Chadburn
  get_closest_value :: "real \<Rightarrow> Chadburn"
  from_index :: "int \<Rightarrow> Chadburn option"

subsection \<open>The controller\<close>

text \<open>
  The fields of the controller that the modelled methods read or write, the motors of
  its motor controller, and \<open>actions\<close>: the calls it has made on its collaborators, in
  order. \<open>digital_pot\<close> says whether \<^verbatim>\<open>self._digital_pot\<close> is set; \<open>imu\<close> is \<open>None\<close> when
  no IMU is set and otherwise holds \<^verbatim>\<open>is_calibrated\<close>. Readings the methods take from
  collaborators while they run (the servos' \<^verbatim>\<open>is_rotated\<close>, the mean motor speed, the
  heading, the potentiometer) are arguments. Logging, sleeping and the display are left
  out.

  Modelled from the spec: \<^verbatim>\<open>core/subscriber.py\<close> is not among the sources. \<open>enabled\<close>
  and \<open>closed\<close> are the lifecycle flags the controller inherits; the inherited
  \<^verbatim>\<open>disable\<close> clears the first, the inherited \<^verbatim>\<open>close\<close> calls \<^verbatim>\<open>disable\<close> (as the
  source's comment says) and sets the second.
\<close>

record motion_controller =
  steering_mode :: "SteeringMode option"
  motors :: "motor list"
  chadburn_index :: int
  chadburn :: Chadburn
  digital_pot :: bool
  imu :: "bool option"
  enabled :: bool
  closed :: bool
  actions :: "action list"

definition PORT_AFRS_STEERING_LAMBDA_NAME :: string where
  "PORT_AFRS_STEERING_LAMBDA_NAME = ''__port_afrs_steering''"

definition STBD_AFRS_STEERING_LAMBDA_NAME :: string where
  "STBD_AFRS_STEERING_LAMBDA_NAME = ''__stbd_afrs_steering''"

text \<open>
  \<open>_prepare_to_move\<close>: \<^verbatim>\<open>self._motor_controller.clear_speed_multipliers()\<close>, which by
  the method's docstring clears any preexisting speed multipliers.
\<close>

definition prepare_to_move :: "motion_controller \<Rightarrow> motion_controller" where
  "prepare_to_move self = self\<lparr>motors := map clear_speed_multipliers (motors self)\<rparr>"

text \<open>
  \<open>reposition\<close> starts the ramp thread, commands the servos and joins the thread. The
  ramp runs against the motor controller concurrently with the servo move; the model
  records the call.
\<close>

definition reposition :: "SteeringMode \<Rightarrow> motion_controller \<Rightarrow> motion_controller" where
  "reposition target self = self\<lparr>actions := actions self @ [Reposition target]\<rparr>"

fun is_reposition :: "action \<Rightarrow> bool" where
  "is_reposition (Reposition m) = True"
| "is_reposition a = False"

definition reposition_count :: "motion_controller \<Rightarrow> nat" where
  "reposition_count self = length (filter is_reposition (actions self))"

subsection \<open>set\_steering\_mode\<close>

text \<open>The body of the loop that removes the lambdas of the mode being left.\<close>

definition remove_mode_lambdas :: "motor \<Rightarrow> motor" where
  "remove_mode_lambdas m =
     (if has_speed_multiplier m ''steering''
      then remove_speed_multiplier (remove_speed_multiplier m ''steering'') ''stop''
      else m)"

text \<open>The body of the AFRS loop over the motors, and the loop: it stops at the first raise.\<close>

definition afrs_motor :: "motor \<Rightarrow> py_error + motor" where
  "afrs_motor m =
     (if side (orientation m) = PORT then
        (if \<not> has_speed_multiplier m PORT_AFRS_STEERING_LAMBDA_NAME
         then add_speed_multiplier m PORT_AFRS_STEERING_LAMBDA_NAME port_steering_lambda
         else Inr m)
      else if side (orientation m) = STBD then
        (if \<not> has_speed_multiplier m STBD_AFRS_STEERING_LAMBDA_NAME
         then add_speed_multiplier m STBD_AFRS_STEERING_LAMBDA_NAME stbd_steering_lambda
         else Inr m)
      else Inl (Exception ''unrecognised orientation''))"

fun afrs_motors :: "motor list \<Rightarrow> py_error option \<times> motor list" where
  "afrs_motors [] = (None, [])"
| "afrs_motors (m # ms) =
     (case afrs_motor m of
        Inl e \<Rightarrow> (Some e, m # ms)
      | Inr m' \<Rightarrow> (case afrs_motors ms of (e, ms') \<Rightarrow> (e, m' # ms')))"

text \<open>The last part of \<open>set_steering_mode\<close>, under the comment \<^verbatim>\<open>set mode for motors\<close>.\<close>

definition set_mode_for_motors ::
  "SteeringMode \<Rightarrow> motion_controller \<Rightarrow> py_error option \<times> motion_controller" where
  "set_mode_for_motors target self =
     (case target of
        AFRS \<Rightarrow>
          (case afrs_motors (motors self) of
             (e, ms) \<Rightarrow> (e, self\<lparr>steering_mode := Some AFRS, motors := ms\<rparr>))
      | ROTATE \<Rightarrow> (None, self\<lparr>steering_mode := Some ROTATE\<rparr>)
      | SKID \<Rightarrow> (None, self\<lparr>steering_mode := Some SKID\<rparr>)
      | OTHER n \<Rightarrow> (Some (Exception ''unsupported steering mode''), self))"

text \<open>
  \<open>rotated\<close> is what \<^verbatim>\<open>self._servo_controller.is_rotated\<close> returns during the call. The
  argument \<open>None\<close> is Python's \<^verbatim>\<open>None\<close>.
\<close>

definition alter_steering_mode :: "SteeringMode \<Rightarrow> bool \<Rightarrow> bool" where
  "alter_steering_mode target rotated =
     (if target = ROTATE \<and> rotated then False
      else if target \<noteq> ROTATE \<and> \<not> rotated then False
      else True)"

definition set_steering_mode ::
  "SteeringMode option \<Rightarrow> bool \<Rightarrow> motion_controller \<Rightarrow> py_error option \<times> motion_controller" where
  "set_steering_mode arg rotated self =
     (case arg of
        None \<Rightarrow> (Some ValueError, self)
      | Some target \<Rightarrow>
          if steering_mode self = Some target then (None, self)
          else
            set_mode_for_motors target
              (if alter_steering_mode target rotated
               then reposition target (self\<lparr>motors := map remove_mode_lambdas (motors self)\<rparr>)
               else self))"

subsection \<open>change\_speed and increment\_speed\<close>

definition incr_clamp :: "int \<Rightarrow> int" where
  "incr_clamp n = max (min 7 n) (- 7)"

text \<open>\<^verbatim>\<open>_increment = self._incr_clamp(int(_vel / 16.0))\<close> with \<^verbatim>\<open>_vel = 127 - value\<close>.\<close>

definition speed_increment :: "int \<Rightarrow> int" where
  "speed_increment value = incr_clamp (py_int (real_of_int (127 - value) / 16))"

definition scale_factor :: real where
  "scale_factor = 0.01428 / 5"

definition change_speed :: "int \<Rightarrow> motion_controller \<Rightarrow> motion_controller" where
  "change_speed value self =
     (let s0 = prepare_to_move self;
          speed_delta = real_of_int (speed_increment value) * scale_factor
      in if \<not> isclose speed_delta 0 (1 / 100)
         then s0\<lparr>actions := actions s0 @
                   map (\<lambda>m. SetMotorSpeed (orientation m) (target_speed m + speed_delta)) (motors s0)\<rparr>
         else s0)"

text \<open>
  One step of the index: \<^verbatim>\<open>self._chadburn_index += 1\<close> (or \<^verbatim>\<open>-= 1\<close>), then
  \<^verbatim>\<open>self._chadburn = Chadburn.from_index(self._chadburn_index)\<close>.
\<close>

definition step_chadburn ::
  "chadburn_enum \<Rightarrow> int \<Rightarrow> motion_controller \<Rightarrow> py_error option \<times> motion_controller" where
  "step_chadburn E i self =
     (case from_index E i of
        None \<Rightarrow> (Some (Exception ''from_index''), self\<lparr>chadburn_index := i\<rparr>)
      | Some c \<Rightarrow> (None, self\<lparr>chadburn_index := i, chadburn := c\<rparr>))"

definition commit_chadburn :: "motion_controller \<Rightarrow> motion_controller" where
  "commit_chadburn self =
     self\<lparr>actions := actions self @
            [SetSpeed PORT (speed (chadburn self)), SetSpeed STBD (speed (chadburn self))]\<rparr>"

text \<open>
  \<open>mean_speed\<close> is what \<^verbatim>\<open>self._motor_controller.get_mean_speed(Orientation.CNTR)\<close>
  returns during the call.
\<close>

definition increment_speed ::
  "chadburn_enum \<Rightarrow> int \<Rightarrow> real \<Rightarrow> motion_controller \<Rightarrow> py_error option \<times> motion_controller" where
  "increment_speed E value mean_speed self =
     (let s0 = prepare_to_move self;
          c = get_closest_value E mean_speed;
          s1 = s0\<lparr>chadburn := c, chadburn_index := num c\<rparr>;
          r = (if value = - 1
               then (if chadburn_index s1 < num (FULL_AHEAD E)
                     then step_chadburn E (chadburn_index s1 + 1) s1
                     else (None, s1))
               else (if chadburn_index s1 > num (FULL_ASTERN E)
                     then step_chadburn E (chadburn_index s1 - 1) s1
                     else (None, s1)))
      in case fst r of
           Some e \<Rightarrow> (Some e, snd r)
         | None \<Rightarrow> (None, commit_chadburn (snd r)))"

text \<open>
  Modelled from the spec: an enumeration given by its levels in declaration order, with
  the closest-value lookup ``by absolute difference'' (the first of the nearest levels)
  and the lookup by index. \<open>telegraph\<close> is a short ladder of that shape, with one
  MAXIMUM level beyond each end, used to run the methods on concrete inputs.
\<close>

fun closest_level :: "real \<Rightarrow> Chadburn \<Rightarrow> Chadburn list \<Rightarrow> Chadburn" where
  "closest_level v best [] = best"
| "closest_level v best (c # cs) =
     closest_level v (if \<bar>speed c - v\<bar> < \<bar>speed best - v\<bar> then c else best) cs"

definition closest_value :: "Chadburn \<Rightarrow> Chadburn list \<Rightarrow> real \<Rightarrow> Chadburn" where
  "closest_value first rest v = closest_level v first rest"

definition level_of_index :: "Chadburn list \<Rightarrow> int \<Rightarrow> Chadburn option" where
  "level_of_index levels i = find (\<lambda>c. num c = i) levels"

definition enum_of_levels :: "Chadburn \<Rightarrow> Chadburn \<Rightarrow> Chadburn \<Rightarrow> Chadburn list \<Rightarrow> chadburn_enum" where
  "enum_of_levels astern ahead first rest =
     \<lparr>FULL_ASTERN = astern, FULL_AHEAD = ahead,
      get_closest_value = closest_value first rest,
      from_index = level_of_index (first # rest)\<rparr>"

definition telegraph :: chadburn_enum where
  "telegraph =
     enum_of_levels \<lparr>num = - 2, speed = - 0.9\<rparr> \<lparr>num = 2, speed = 0.9\<rparr>
       \<lparr>num = - 3, speed = - 1\<rparr>
       [\<lparr>num = - 2, speed = - 0.9\<rparr>, \<lparr>num = - 1, speed = - 0.21\<rparr>, \<lparr>num = 0, speed = 0\<rparr>,
        \<lparr>num = 1, speed = 0.21\<rparr>, \<lparr>num = 2, speed = 0.9\<rparr>, \<lparr>num = 3, speed = 1\<rparr>]"

subsection \<open>Shutting down\<close>




subsection \<open>set\_heading\<close>







subsection \<open>The increment the specification describes\<close>

text \<open>
  The specification's words for the increment of \<open>change_speed\<close>:
  \<open>clamp(round((127 - raw)/16), -7, 7)\<close>. This definition follows the specification,
  not the source; it is compared with \<open>speed_increment\<close> below. (\<open>round\<close> rounds a tie
  upwards, Python's to the even neighbour; the comparison is made away from ties.)
\<close>

definition spec_increment :: "int \<Rightarrow> int" where
  "spec_increment raw = max (min 7 (round (real_of_int (127 - raw) / 16))) (- 7)"

subsection \<open>Controllers to run the methods on\<close>

text \<open>
  \<open>cruising\<close>: AFRS mode, a port and a starboard motor without multipliers, a set
  potentiometer and a calibrated IMU. \<open>fresh\<close>: the same before any mode was set.
  \<open>pivoting\<close>: ROTATE mode, with one motor that carries a \<open>steering\<close> and a \<open>stop\<close>
  multiplier.
\<close>

definition cruising :: motion_controller where
  "cruising =
     \<lparr>steering_mode = Some AFRS,
      motors = [\<lparr>orientation = PORT, target_speed = 0, speed_multipliers = Map.empty\<rparr>,
                \<lparr>orientation = STBD, target_speed = 0, speed_multipliers = Map.empty\<rparr>],
      chadburn_index = 0, chadburn = \<lparr>num = 0, speed = 0\<rparr>,
      digital_pot = True, imu = Some True, enabled = True, closed = False, actions = []\<rparr>"

definition fresh :: motion_controller where
  "fresh = cruising\<lparr>steering_mode := None\<rparr>"

definition pivoting :: motion_controller where
  "pivoting =
     \<lparr>steering_mode = Some ROTATE,
      motors = [\<lparr>orientation = PFWD, target_speed = 0,
                 speed_multipliers = [''steering'' \<mapsto> other_lambda 1, ''stop'' \<mapsto> other_lambda 2]\<rparr>],
      chadburn_index = 0, chadburn = \<lparr>num = 0, speed = 0\<rparr>,
      digital_pot = True, imu = Some True, enabled = True, closed = False, actions = []\<rparr>"


section \<open>Theorems\<close>

subsection \<open>The callback registry\<close>

lemma remove_callback_registered:
  "f \<in> set (callbacks self) \<Longrightarrow>
     remove_callback self (Some f) = (None, self\<lparr>callbacks := remove1 f (callbacks self)\<rparr>)"
  by (simp add: remove_callback_def)

text \<open>
  C9, as the claim states it, fails: removing a callback from a registry that does not
  hold it raises \<open>ValueError\<close>; it does not return normally.
\<close>

theorem remove_callback_absent_counterexample:
  "remove_callback \<lparr>callbacks = [2], lf_callbacks = []\<rparr> (Some 1)
     = (Some ValueError, \<lparr>callbacks = [2], lf_callbacks = []\<rparr>)"
  by (simp add: remove_callback_def)

text \<open>
  C9, amended: for every callback \<open>f\<close> that is not registered, \<open>remove_callback f\<close>
  raises \<open>ValueError\<close> and leaves the registry as it was.
\<close>

theorem remove_callback_absent_raises:
  assumes "f \<notin> set (callbacks self)"
  shows "remove_callback self (Some f) = (Some ValueError, self)"
  using assms by (simp add: remove_callback_def)

theorem remove_callback_absent_raises_witness:
  "(7::nat) \<notin> set (callbacks \<lparr>callbacks = [3, 5], lf_callbacks = [7]\<rparr>)
   \<and> remove_callback \<lparr>callbacks = [3, 5], lf_callbacks = [7]\<rparr> (Some 7)
       = (Some ValueError, \<lparr>callbacks = [3, 5], lf_callbacks = [7]\<rparr>)"
proof -
  have absent: "(7::nat) \<notin> set (callbacks \<lparr>callbacks = [3, 5], lf_callbacks = [7]\<rparr>)"
    by simp
  from remove_callback_absent_raises [OF absent] absent show ?thesis
    by simp
qed

subsection \<open>The bumper branch\<close>

lemma bumper_priority_le: "bumper_priority p es \<le> p"
proof (induction es arbitrary: p)
  case Nil
  show ?case by simp
next
  case (Cons e es)
  have "bumper_priority (min p (priority e)) es \<le> min p (priority e)"
    by (rule Cons.IH)
  then show ?case by simp
qed

text \<open>
  The running minimum starts at 0, which no priority is below: in the code no batch
  reaches the halt branch, whatever it holds.
\<close>

lemma bumper_never_halts: "process_message_BUMPER sd = StopHandler_stop"
proof -
  have "bumper_priority 0 (events sd) \<le> 0"
    by (rule bumper_priority_le)
  then have "bumper_priority 0 (events sd) \<noteq> 10"
    by linarith
  then show ?thesis
    by (simp add: process_message_BUMPER_def)
qed

text \<open>
  C1, as the claim states it, fails: a bumper batch with an oblique contact
  (priority 10) between two contact bumpers (priority 4) calls the stop handler's
  \<open>stop\<close>, not its \<open>halt\<close>. The handler decides by the minimum of the priorities, and
  the minimum of such a batch is 4.
\<close>

theorem bumper_mixed_batch_counterexample:
  "process_message_BUMPER
     \<lparr>events = [\<lparr>event_name = ''BUMPER_PORT'', priority = 4\<rparr>,
                \<lparr>event_name = ''BUMPER_FOBP'', priority = 10\<rparr>,
                \<lparr>event_name = ''BUMPER_CNTR'', priority = 4\<rparr>],
      fop_cm = 12, fos_cm = 40\<rparr>
   = StopHandler_stop
   \<and> StopHandler_stop \<noteq> StopHandler_halt"
  by (simp add: process_message_BUMPER_def)

text \<open>
  C1, amended: for every incoming BUMPER message whose batch of contact events, each
  of priority 4 or 10, holds at least one event of priority 4 (alongside any number
  of priority-10 contacts), the bumper handler selects the stop action: it calls the
  stop handler's \<open>stop\<close>, not \<open>halt\<close>.
\<close>

theorem bumper_contact_batch_calls_stop:
  assumes "list_all (\<lambda>e. priority e = 4 \<or> priority e = 10) (events sd)"
    and "e \<in> set (events sd)" and "priority e = 4"
  shows "process_message_BUMPER sd = StopHandler_stop"
  by (rule bumper_never_halts)

theorem bumper_contact_batch_calls_stop_witness:
  "list_all (\<lambda>e. priority e = 4 \<or> priority e = 10)
     (events \<lparr>events = [\<lparr>event_name = ''BUMPER_FOBS'', priority = 10\<rparr>,
                          \<lparr>event_name = ''BUMPER_STBD'', priority = 4\<rparr>],
               fop_cm = 30, fos_cm = 8\<rparr>)
   \<and> \<lparr>event_name = ''BUMPER_STBD'', priority = 4\<rparr>
       \<in> set (events \<lparr>events = [\<lparr>event_name = ''BUMPER_FOBS'', priority = 10\<rparr>,
                                  \<lparr>event_name = ''BUMPER_STBD'', priority = 4\<rparr>],
                       fop_cm = 30, fos_cm = 8\<rparr>)
   \<and> process_message_BUMPER
         \<lparr>events = [\<lparr>event_name = ''BUMPER_FOBS'', priority = 10\<rparr>,
                    \<lparr>event_name = ''BUMPER_STBD'', priority = 4\<rparr>],
          fop_cm = 30, fos_cm = 8\<rparr>
       = StopHandler_stop"
proof -
  let ?sd = "\<lparr>events = [\<lparr>event_name = ''BUMPER_FOBS'', priority = 10\<rparr>,
                        \<lparr>event_name = ''BUMPER_STBD'', priority = 4\<rparr>],
             fop_cm = 30, fos_cm = 8\<rparr>"
  have batch: "list_all (\<lambda>e. priority e = 4 \<or> priority e = 10) (events ?sd)" by simp
  have held: "\<lparr>event_name = ''BUMPER_STBD'', priority = 4\<rparr> \<in> set (events ?sd)" by simp
  have four: "priority \<lparr>event_name = ''BUMPER_STBD'', priority = 4\<rparr> = 4" by simp
  from bumper_contact_batch_calls_stop [OF batch held four] batch held
  show ?thesis by blast
qed

subsection \<open>Steering geometry\<close>

lemma outside_angle_bounds:
  fixes L W a :: real
  assumes a: "0 < a" "a < 90" and L: "0 < L" and W: "0 < W"
  shows "0 < degrees (atan2 L (L / tan (radians a) + W * 2))"
    and "degrees (atan2 L (L / tan (radians a) + W * 2)) < a"
proof -
  let ?r = "radians a"
  have r: "0 < ?r" "?r < pi / 2"
    using a by (simp_all add: radians_def)
  have t: "0 < tan ?r"
    using r by (rule tan_gt_zero)
  let ?d = "L / tan ?r"
  have d: "0 < ?d" using L t by simp
  let ?od = "?d + W * 2"
  have od: "?d < ?od" using W by simp
  then have od0: "0 < ?od" using d by linarith
  have at: "atan2 L ?od = arctan (L / ?od)"
    using od0 by (simp add: atan2_def)
  have "L / ?od < L / ?d"
    using od L d od0 by (intro divide_strict_left_mono mult_pos_pos)
  also have "L / ?d = tan ?r" using L t by simp
  finally have "arctan (L / ?od) < arctan (tan ?r)"
    by (simp add: arctan_less_iff)
  also have "arctan (tan ?r) = ?r"
    using r by (simp add: arctan_tan)
  finally have lt: "atan2 L ?od < ?r" using at by simp
  have "0 < L / ?od" using L od0 by simp
  then have "arctan 0 < arctan (L / ?od)" by (simp only: arctan_less_iff)
  then have gt: "0 < atan2 L ?od" using at by simp
  show "0 < degrees (atan2 L ?od)"
    using gt pi_gt_zero by (simp add: degrees_def)
  have "degrees (atan2 L ?od) < degrees ?r"
    using lt pi_gt_zero by (simp add: degrees_def divide_strict_right_mono)
  also have "degrees ?r = a" by (simp add: degrees_def radians_def)
  finally show "degrees (atan2 L ?od) < a" .
qed

lemma calculate_afrs_steering_acute:
  assumes "0 < a" "a < 90"
  shows "calculate_afrs_steering cfg a
     = Inr (degrees (atan2 (half_length cfg)
                       (half_length cfg / tan (radians a) + half_width cfg * 2)))"
proof -
  have r: "0 < radians a" "radians a < pi / 2"
    using assms by (simp_all add: radians_def)
  have "0 < tan (radians a)" using r by (rule tan_gt_zero)
  then show ?thesis using assms by (simp add: calculate_afrs_steering_def Let_def)
qed

lemma degrees_arctan_half: "degrees (arctan (1 / 2)) < 45"
proof -
  have "arctan (1 / 2) < arctan 1" by (simp add: arctan_less_iff)
  then have "arctan (1 / 2) < pi / 4" by (simp add: arctan_one)
  then show ?thesis using pi_gt_zero by (simp add: degrees_def field_simps)
qed

lemma calculate_afrs_steering_45:
  "calculate_afrs_steering
     \<lparr>half_length = 1, half_width = 1 / 2, wheel_offset = 1, afrs_max_ratio = 2\<rparr> 45
   = Inr (degrees (arctan (1 / 2)))"
proof -
  have "radians 45 = pi / 4" by (simp add: radians_def)
  then have "tan (radians 45) = tan (pi / 4)" by (rule arg_cong)
  then have "tan (radians 45) = 1" by (simp only: tan_45)
  then show ?thesis by (simp add: calculate_afrs_steering_def Let_def atan2_def)
qed

text \<open>
  C2, as the claim states it, fails: with half wheelbase 1, half track 1/2 and wheel
  offset 1, the inner angle 45 gives the outer angle \<open>degrees (arctan (1/2))\<close>
  (about 26.57), which is not greater than 45.
\<close>

theorem calculate_afrs_steering_counterexample:
  "calculate_afrs_steering
     \<lparr>half_length = 1, half_width = 1 / 2, wheel_offset = 1, afrs_max_ratio = 2\<rparr> 45
   = Inr (degrees (arctan (1 / 2)))
   \<and> \<not> 45 < degrees (arctan (1 / 2))"
  using calculate_afrs_steering_45 degrees_arctan_half by simp

text \<open>
  C2, amended: the solver maps the inner angle 0 to the outer angle 0, and for every
  inner angle strictly between 0 and 90 degrees, with positive half wheelbase and
  positive half track, it returns an outer angle that is positive and strictly smaller
  than the inner angle (the outer wheel runs on the wider arc, so it turns less). The
  wheel offset does not enter the result.
\<close>

theorem calculate_afrs_steering_outer_smaller:
  "calculate_afrs_steering cfg 0 = Inr 0 \<and>
   (0 < a \<and> a < 90 \<and> 0 < half_length cfg \<and> 0 < half_width cfg \<longrightarrow>
      (\<exists>outer. calculate_afrs_steering cfg a = Inr outer \<and> 0 < outer \<and> outer < a))"
  using calculate_afrs_steering_acute [of a cfg]
    outside_angle_bounds [of a "half_length cfg" "half_width cfg"]
  by (auto simp add: calculate_afrs_steering_def)

theorem calculate_afrs_steering_outer_smaller_witness:
  "(0::real) < 45 \<and> (45::real) < 90
   \<and> 0 < half_length \<lparr>half_length = 1, half_width = 1 / 2, wheel_offset = 1, afrs_max_ratio = 2\<rparr>
   \<and> 0 < half_width \<lparr>half_length = 1, half_width = 1 / 2, wheel_offset = 1, afrs_max_ratio = 2\<rparr>
   \<and> (\<exists>outer. calculate_afrs_steering
                 \<lparr>half_length = 1, half_width = 1 / 2, wheel_offset = 1, afrs_max_ratio = 2\<rparr> 45
               = Inr outer
          \<and> 0 < outer \<and> outer < 45)"
  using calculate_afrs_steering_outer_smaller
    [of "\<lparr>half_length = 1, half_width = 1 / 2, wheel_offset = 1, afrs_max_ratio = 2\<rparr>" 45]
  by simp

subsection \<open>Rounding to doubles\<close>























subsection \<open>The steering ratio\<close>












subsection \<open>set\_steering\_mode\<close>

lemma remove_mode_lambdas_frame:
  "orientation (remove_mode_lambdas m) = orientation m"
  "target_speed (remove_mode_lambdas m) = target_speed m"
  "speed_multipliers (remove_mode_lambdas m) \<subseteq>\<^sub>m speed_multipliers m"
  by (auto simp add: remove_mode_lambdas_def remove_speed_multiplier_def map_le_def)

lemma set_mode_for_motors_OTHER:
  "set_mode_for_motors (OTHER n) s = (Some (Exception ''unsupported steering mode''), s)"
  by (simp add: set_mode_for_motors_def)

lemma set_steering_mode_OTHER:
  assumes "steering_mode self \<noteq> Some (OTHER n)"
  shows "set_steering_mode (Some (OTHER n)) rotated self =
     (Some (Exception ''unsupported steering mode''),
      if rotated then reposition (OTHER n) (self\<lparr>motors := map remove_mode_lambdas (motors self)\<rparr>)
      else self)"
  using assms
  by (simp add: set_steering_mode_def set_mode_for_motors_OTHER alter_steering_mode_def)

text \<open>
  C4, as the claim states it, fails: with the servos reporting rotated, a call with an
  unsupported mode removes the \<open>steering\<close> and \<open>stop\<close> multipliers of a motor and runs
  \<open>reposition\<close> before it raises.
\<close>

theorem set_steering_mode_unsupported_counterexample:
  "has_speed_multiplier (hd (motors pivoting)) ''steering''
   \<and> fst (set_steering_mode (Some (OTHER ''SIDEWAYS'')) True pivoting)
       = Some (Exception ''unsupported steering mode'')
   \<and> \<not> has_speed_multiplier
         (hd (motors (snd (set_steering_mode (Some (OTHER ''SIDEWAYS'')) True pivoting)))) ''steering''
   \<and> \<not> has_speed_multiplier
         (hd (motors (snd (set_steering_mode (Some (OTHER ''SIDEWAYS'')) True pivoting)))) ''stop''
   \<and> actions (snd (set_steering_mode (Some (OTHER ''SIDEWAYS'')) True pivoting))
       = [Reposition (OTHER ''SIDEWAYS'')]"
  by (simp add: pivoting_def set_steering_mode_def set_mode_for_motors_def alter_steering_mode_def
      reposition_def remove_mode_lambdas_def remove_speed_multiplier_def has_speed_multiplier_def)

text \<open>
  C4, amended: a call of \<open>set_steering_mode\<close> with a mode other than AFRS, ROTATE and
  SKID (and other than the stored mode) raises the exception ``unsupported steering
  mode'' and leaves the stored steering mode unchanged; it adds no multiplier to any
  motor and changes none (each motor keeps its orientation and target speed, and its
  multipliers after the call are among those before); and when the servos report that
  they are not rotated, the controller is left exactly as it was.
\<close>

theorem set_steering_mode_unsupported:
  assumes "steering_mode self \<noteq> Some (OTHER n)"
  shows "fst (set_steering_mode (Some (OTHER n)) rotated self)
           = Some (Exception ''unsupported steering mode'')
       \<and> steering_mode (snd (set_steering_mode (Some (OTHER n)) rotated self)) = steering_mode self
       \<and> (\<not> rotated \<longrightarrow> snd (set_steering_mode (Some (OTHER n)) rotated self) = self)
       \<and> list_all2 (\<lambda>m' m. orientation m' = orientation m \<and> target_speed m' = target_speed m
                       \<and> speed_multipliers m' \<subseteq>\<^sub>m speed_multipliers m)
           (motors (snd (set_steering_mode (Some (OTHER n)) rotated self))) (motors self)"
proof -
  have removed: "list_all2 (\<lambda>m' m. orientation m' = orientation m \<and> target_speed m' = target_speed m
                       \<and> speed_multipliers m' \<subseteq>\<^sub>m speed_multipliers m)
           (map remove_mode_lambdas ms) ms" for ms
    by (induction ms) (simp_all add: remove_mode_lambdas_frame)
  have same: "list_all2 (\<lambda>m' m. orientation m' = orientation m \<and> target_speed m' = target_speed m
                       \<and> speed_multipliers m' \<subseteq>\<^sub>m speed_multipliers m) ms ms" for ms
    by (induction ms) simp_all
  show ?thesis
    using removed [of "motors self"] same [of "motors self"]
    by (simp add: set_steering_mode_OTHER [OF assms] reposition_def)
qed

theorem set_steering_mode_unsupported_witness:
  "steering_mode pivoting \<noteq> Some (OTHER ''SIDEWAYS'')
   \<and> fst (set_steering_mode (Some (OTHER ''SIDEWAYS'')) False pivoting)
       = Some (Exception ''unsupported steering mode'')
   \<and> snd (set_steering_mode (Some (OTHER ''SIDEWAYS'')) False pivoting) = pivoting"
proof -
  have stored: "steering_mode pivoting \<noteq> Some (OTHER ''SIDEWAYS'')"
    by (simp add: pivoting_def)
  from set_steering_mode_unsupported [OF stored, of False] stored show ?thesis
    by simp
qed

lemma set_mode_for_motors_supported:
  assumes "m = AFRS \<or> m = ROTATE \<or> m = SKID"
  shows "steering_mode (snd (set_mode_for_motors m s)) = Some m"
    and "actions (snd (set_mode_for_motors m s)) = actions s"
  using assms by (auto simp add: set_mode_for_motors_def split: prod.splits)

lemma set_steering_mode_same:
  "steering_mode s = Some m \<Longrightarrow> set_steering_mode (Some m) r s = (None, s)"
  by (simp add: set_steering_mode_def)

lemma set_steering_mode_commits:
  assumes "m = AFRS \<or> m = ROTATE \<or> m = SKID"
  shows "steering_mode (snd (set_steering_mode (Some m) r s)) = Some m"
  using set_mode_for_motors_supported(1) [OF assms]
  by (simp add: set_steering_mode_def)

lemma set_steering_mode_repositions:
  assumes "m = AFRS \<or> m = ROTATE \<or> m = SKID"
  shows "reposition_count (snd (set_steering_mode (Some m) r s))
       = reposition_count s + (if steering_mode s \<noteq> Some m \<and> alter_steering_mode m r then 1 else 0)"
  using set_mode_for_motors_supported(2) [OF assms]
  by (simp add: set_steering_mode_def reposition_count_def reposition_def)

text \<open>
  C7, as the claim states it, fails: on a controller whose mode is unset and whose
  servos report not rotated, two calls of \<open>set_steering_mode SKID\<close> both return
  normally and \<open>reposition\<close> is called zero times, not once.
\<close>

theorem set_steering_mode_twice_counterexample:
  "fst (set_steering_mode (Some SKID) False fresh) = None
   \<and> fst (set_steering_mode (Some SKID) False (snd (set_steering_mode (Some SKID) False fresh))) = None
   \<and> reposition_count
       (snd (set_steering_mode (Some SKID) False (snd (set_steering_mode (Some SKID) False fresh)))) = 0"
  by (simp add: fresh_def cruising_def set_steering_mode_def set_mode_for_motors_def
      alter_steering_mode_def reposition_count_def)

text \<open>
  C7, amended: for every mode \<open>m\<close> among AFRS, ROTATE and SKID, after a call of
  \<open>set_steering_mode m\<close> a second call with the same \<open>m\<close> returns normally, changes
  nothing and calls \<open>reposition\<close> no more; the two calls together call \<open>reposition\<close> at
  most once: once when the first call found another mode stored and the servos'
  rotated state not matching \<open>m\<close> (rotated for ROTATE, not rotated otherwise), and not
  at all otherwise.
\<close>

theorem set_steering_mode_twice:
  assumes "m = AFRS \<or> m = ROTATE \<or> m = SKID"
  shows "set_steering_mode (Some m) r2 (snd (set_steering_mode (Some m) r1 s))
           = (None, snd (set_steering_mode (Some m) r1 s))
       \<and> reposition_count
           (snd (set_steering_mode (Some m) r2 (snd (set_steering_mode (Some m) r1 s))))
           = reposition_count s
               + (if steering_mode s \<noteq> Some m \<and> alter_steering_mode m r1 then 1 else 0)"
  using set_steering_mode_same [OF set_steering_mode_commits [OF assms, of r1 s], of r2]
    set_steering_mode_repositions [OF assms, of r1 s]
  by simp

theorem set_steering_mode_twice_witness:
  "set_steering_mode (Some ROTATE) True (snd (set_steering_mode (Some ROTATE) False fresh))
       = (None, snd (set_steering_mode (Some ROTATE) False fresh))
   \<and> reposition_count
       (snd (set_steering_mode (Some ROTATE) True (snd (set_steering_mode (Some ROTATE) False fresh))))
       = 1"
proof -
  have supported: "ROTATE = AFRS \<or> ROTATE = ROTATE \<or> ROTATE = SKID" by simp
  have before: "reposition_count fresh = 0" "steering_mode fresh \<noteq> Some ROTATE"
    "alter_steering_mode ROTATE False"
    by (simp_all add: fresh_def cruising_def reposition_count_def alter_steering_mode_def)
  note twice = set_steering_mode_twice [OF supported, of True False fresh]
  have noop:
    "set_steering_mode (Some ROTATE) True (snd (set_steering_mode (Some ROTATE) False fresh))
       = (None, snd (set_steering_mode (Some ROTATE) False fresh))"
    using twice by (rule conjunct1)
  have "reposition_count
          (snd (set_steering_mode (Some ROTATE) True (snd (set_steering_mode (Some ROTATE) False fresh))))
      = reposition_count fresh
          + (if steering_mode fresh \<noteq> Some ROTATE \<and> alter_steering_mode ROTATE False then 1 else 0)"
    using twice by (rule conjunct2)
  then have once:
    "reposition_count
       (snd (set_steering_mode (Some ROTATE) True (snd (set_steering_mode (Some ROTATE) False fresh))))
       = 1"
    using before by simp
  from noop once show ?thesis by (rule conjI)
qed

subsection \<open>change\_speed\<close>

lemma py_int_div16:
  "py_int (real_of_int v / 16) = (if 0 \<le> v then v div 16 else - ((- v) div 16))"
proof -
  have f: "\<lfloor>real_of_int k / 16\<rfloor> = k div 16" for k
    using floor_divide_of_int_eq [of k 16] by simp
  have "\<lceil>real_of_int v / 16\<rceil> = - \<lfloor>real_of_int (- v) / 16\<rfloor>"
    by (simp add: ceiling_def)
  then have c: "\<lceil>real_of_int v / 16\<rceil> = - ((- v) div 16)"
    by (simp only: f)
  show ?thesis
    using f [of v] c by (simp add: py_int_def)
qed

lemma isclose_zero:
  assumes "0 \<le> t"
  shows "isclose d 0 t \<longleftrightarrow> \<bar>d\<bar> \<le> t"
proof -
  have "1 / 10 ^ 9 * \<bar>d\<bar> \<le> \<bar>d\<bar>" by simp
  then show ?thesis using assms by (auto simp add: isclose_def max_def)
qed

lemma delta_threshold:
  "1 / 100 < \<bar>real_of_int k * scale_factor\<bar> \<longleftrightarrow> 4 \<le> \<bar>k\<bar>"
proof
  assume a: "1 / 100 < \<bar>real_of_int k * scale_factor\<bar>"
  show "4 \<le> \<bar>k\<bar>"
  proof (rule ccontr)
    assume "\<not> 4 \<le> \<bar>k\<bar>"
    then have "\<bar>k\<bar> \<le> 3" by simp
    then have "real_of_int \<bar>k\<bar> \<le> 3" by linarith
    then have "\<bar>real_of_int k * scale_factor\<bar> \<le> 3 * (0.01428 / 5)"
      by (simp add: scale_factor_def abs_mult)
    with a show False by simp
  qed
next
  assume "4 \<le> \<bar>k\<bar>"
  then have "4 \<le> real_of_int \<bar>k\<bar>" by linarith
  then have "4 * (0.01428 / 5) \<le> \<bar>real_of_int k * scale_factor\<bar>"
    by (simp add: scale_factor_def abs_mult)
  then show "1 / 100 < \<bar>real_of_int k * scale_factor\<bar>" by simp
qed



lemma speed_increment_eq:
  "speed_increment raw
     = max (min 7 (if raw \<le> 127 then (127 - raw) div 16 else - ((raw - 127) div 16))) (- 7)"
proof -
  have e: "speed_increment raw
     = max (min 7 (if 0 \<le> 127 - raw then (127 - raw) div 16 else - ((- (127 - raw)) div 16))) (- 7)"
    by (simp only: speed_increment_def incr_clamp_def py_int_div16)
  have c: "(0 \<le> 127 - raw) = (raw \<le> 127)" by linarith
  have n: "- (127 - raw) = raw - 127" by linarith
  show ?thesis unfolding e c n ..
qed

lemma speed_increment_band:
  assumes "0 \<le> raw" "raw \<le> 255"
  shows "4 \<le> \<bar>speed_increment raw\<bar> \<longleftrightarrow> raw \<le> 63 \<or> 191 \<le> raw"
proof (cases "raw \<le> 127")
  case True
  then have "speed_increment raw = max (min 7 ((127 - raw) div 16)) (- 7)"
    by (simp only: speed_increment_eq if_True)
  then show ?thesis using True assms by arith
next
  case False
  then have "speed_increment raw = max (min 7 (- ((raw - 127) div 16))) (- 7)"
    by (simp only: speed_increment_eq if_False)
  then show ?thesis using False assms by arith
qed

lemma change_speed_actions:
  "actions (change_speed raw self)
     = actions self @
         (if 1 / 100 < \<bar>real_of_int (speed_increment raw) * scale_factor\<bar>
          then map (\<lambda>m. SetMotorSpeed (orientation m)
                      (target_speed m + real_of_int (speed_increment raw) * scale_factor)) (motors self)
          else [])"
  by (simp add: change_speed_def Let_def isclose_zero prepare_to_move_def clear_speed_multipliers_def
      comp_def not_le)

text \<open>
  C8, as the claim states it, fails: at the raw value 67 the code's increment is
  \<open>int(60 / 16.0) = 3\<close>, the delta \<open>3 * 0.002856\<close> is within the tolerance and no motor
  is commanded; the claim's \<open>round(60 / 16) = 4\<close> gives a delta above 0.01.
\<close>

theorem change_speed_counterexample:
  "speed_increment 67 = 3
   \<and> spec_increment 67 = 4
   \<and> 1 / 100 < \<bar>real_of_int (spec_increment 67) * scale_factor\<bar>
   \<and> actions (change_speed 67 cruising) = []"
proof -
  have a: "speed_increment 67 = 3" by (simp add: speed_increment_eq)
  have b: "spec_increment 67 = 4" by (simp add: spec_increment_def round_def)
  have c: "1 / 100 < \<bar>real_of_int (spec_increment 67) * scale_factor\<bar>"
    by (simp add: b scale_factor_def)
  have d: "actions (change_speed 67 cruising) = []"
    by (simp add: change_speed_actions a scale_factor_def cruising_def)
  from a b c d show ?thesis by simp
qed

text \<open>
  C8, amended: for every raw axis value in 0..255, \<open>change_speed\<close> computes its
  increment as \<open>clamp(trunc((127 - raw)/16), -7, 7)\<close>, truncating toward zero,
  multiplies it by the scale factor \<open>0.01428 / 5\<close>, and commands each motor to its own
  current target speed plus that delta if and only if the delta's absolute value
  exceeds 0.01, which is the case exactly for \<open>raw \<le> 63\<close> and \<open>raw \<ge> 191\<close>;
  otherwise it commands no motor.
\<close>

theorem change_speed_truncates:
  assumes "0 \<le> raw" "raw \<le> 255"
  shows "speed_increment raw
           = max (min 7 (if raw \<le> 127 then (127 - raw) div 16 else - ((raw - 127) div 16))) (- 7)
       \<and> actions (change_speed raw self)
           = actions self @
               (if 1 / 100 < \<bar>real_of_int (speed_increment raw) * scale_factor\<bar>
                then map (\<lambda>m. SetMotorSpeed (orientation m)
                            (target_speed m + real_of_int (speed_increment raw) * scale_factor)) (motors self)
                else [])
       \<and> (1 / 100 < \<bar>real_of_int (speed_increment raw) * scale_factor\<bar> \<longleftrightarrow> raw \<le> 63 \<or> 191 \<le> raw)"
proof (intro conjI)
  show "speed_increment raw
           = max (min 7 (if raw \<le> 127 then (127 - raw) div 16 else - ((raw - 127) div 16))) (- 7)"
    by (rule speed_increment_eq)
  show "actions (change_speed raw self)
           = actions self @
               (if 1 / 100 < \<bar>real_of_int (speed_increment raw) * scale_factor\<bar>
                then map (\<lambda>m. SetMotorSpeed (orientation m)
                            (target_speed m + real_of_int (speed_increment raw) * scale_factor)) (motors self)
                else [])"
    by (rule change_speed_actions)
  show "1 / 100 < \<bar>real_of_int (speed_increment raw) * scale_factor\<bar> \<longleftrightarrow> raw \<le> 63 \<or> 191 \<le> raw"
    using delta_threshold [of "speed_increment raw"] speed_increment_band [OF assms] by (rule trans)
qed


theorem change_speed_truncates_witness:
  "(0::int) \<le> 40 \<and> (40::int) \<le> 255
   \<and> speed_increment 40 = 5
   \<and> actions (change_speed 40 cruising)
       = [SetMotorSpeed PORT 0.01428, SetMotorSpeed STBD 0.01428]"
proof -
  have lo: "(0::int) \<le> 40" and hi: "(40::int) \<le> 255" by simp_all
  note t = change_speed_truncates [OF lo hi, of cruising]
  have a: "speed_increment 40 = 5" using t by simp
  have "actions (change_speed 40 cruising)
           = actions cruising @
               (if 1 / 100 < \<bar>real_of_int (speed_increment 40) * scale_factor\<bar>
                then map (\<lambda>m. SetMotorSpeed (orientation m)
                            (target_speed m + real_of_int (speed_increment 40) * scale_factor))
                       (motors cruising)
                else [])"
    using t by blast
  then have b: "actions (change_speed 40 cruising)
       = [SetMotorSpeed PORT 0.01428, SetMotorSpeed STBD 0.01428]"
    by (simp add: a scale_factor_def cruising_def)
  from lo hi a b show ?thesis by simp
qed

subsection \<open>increment\_speed\<close>

lemma step_chadburn_index: "chadburn_index (snd (step_chadburn E i s)) = i"
  by (simp add: step_chadburn_def split: option.splits)

lemma step_chadburn_actions: "actions (snd (step_chadburn E i s)) = actions s"
  by (simp add: step_chadburn_def split: option.splits)

lemma commit_chadburn_simps:
  "chadburn_index (commit_chadburn s) = chadburn_index s"
  "chadburn (commit_chadburn s) = chadburn s"
  "actions (commit_chadburn s)
     = actions s @ [SetSpeed PORT (speed (chadburn s)), SetSpeed STBD (speed (chadburn s))]"
  by (simp_all add: commit_chadburn_def)

lemma increment_speed_index:
  "chadburn_index (snd (increment_speed E v mean_speed self)) =
     (if v = - 1
      then (if num (get_closest_value E mean_speed) < num (FULL_AHEAD E)
            then num (get_closest_value E mean_speed) + 1 else num (get_closest_value E mean_speed))
      else (if num (FULL_ASTERN E) < num (get_closest_value E mean_speed)
            then num (get_closest_value E mean_speed) - 1 else num (get_closest_value E mean_speed)))"
  by (simp add: increment_speed_def Let_def step_chadburn_index commit_chadburn_simps split: option.splits)

lemma increment_speed_commit:
  assumes "fst (increment_speed E v mean_speed self) = None"
  shows "actions (snd (increment_speed E v mean_speed self))
     = actions self @ [SetSpeed PORT (speed (chadburn (snd (increment_speed E v mean_speed self)))),
                       SetSpeed STBD (speed (chadburn (snd (increment_speed E v mean_speed self))))]"
  using assms
  by (auto simp add: increment_speed_def Let_def step_chadburn_actions commit_chadburn_simps
      prepare_to_move_def split: option.splits if_splits)

lemma increment_speed_returns:
  assumes "chadburn_index (snd (increment_speed E v mean_speed self))
             = num (get_closest_value E mean_speed)
           \<or> from_index E (chadburn_index (snd (increment_speed E v mean_speed self))) \<noteq> None"
  shows "fst (increment_speed E v mean_speed self) = None"
  using assms
  by (auto simp add: increment_speed_def Let_def step_chadburn_def commit_chadburn_simps
      split: option.splits if_splits)

lemma increment_speed_in_range:
  assumes "num (FULL_ASTERN E) \<le> num (get_closest_value E mean_speed)"
    and "num (get_closest_value E mean_speed) \<le> num (FULL_AHEAD E)"
  shows "num (FULL_ASTERN E) \<le> chadburn_index (snd (increment_speed E v mean_speed self))
       \<and> chadburn_index (snd (increment_speed E v mean_speed self)) \<le> num (FULL_AHEAD E)"
  using assms by (simp add: increment_speed_index)

lemma increment_speed_resync_top:
  assumes "num (FULL_AHEAD E) \<le> num (get_closest_value E mean_speed)"
  shows "increment_speed E (- 1) mean_speed self
     = (None, commit_chadburn ((prepare_to_move self)\<lparr>chadburn := get_closest_value E mean_speed,
                 chadburn_index := num (get_closest_value E mean_speed)\<rparr>))"
  using assms by (simp add: increment_speed_def Let_def)

text \<open>
  C5: the resynchronisation sets the index to that of the level closest to the measured
  mean speed, whichever level that is. When that level lies beyond FULL\_AHEAD (a
  MAXIMUM level), a call with the argument \<open>-1\<close> returns normally with the index
  still at that level, outside \<open>[FULL_ASTERN.num, FULL_AHEAD.num]\<close>, and commits the
  MAXIMUM level's speed to both motors. (When the closest level lies inside the
  interval, the index stays inside: \<open>increment_speed_in_range\<close>.)
\<close>

theorem increment_speed_keeps_maximum:
  assumes "num (FULL_AHEAD E) < num (get_closest_value E mean_speed)"
  shows "fst (increment_speed E (- 1) mean_speed self) = None
       \<and> chadburn_index (snd (increment_speed E (- 1) mean_speed self))
           = num (get_closest_value E mean_speed)
       \<and> \<not> chadburn_index (snd (increment_speed E (- 1) mean_speed self)) \<le> num (FULL_AHEAD E)
       \<and> actions (snd (increment_speed E (- 1) mean_speed self))
           = actions self @ [SetSpeed PORT (speed (get_closest_value E mean_speed)),
                             SetSpeed STBD (speed (get_closest_value E mean_speed))]"
  using assms
  by (simp add: increment_speed_resync_top commit_chadburn_def prepare_to_move_def)

lemma telegraph_ends:
  "FULL_AHEAD telegraph = \<lparr>num = 2, speed = 0.9\<rparr>"
  "FULL_ASTERN telegraph = \<lparr>num = - 2, speed = - 0.9\<rparr>"
  by (simp_all add: telegraph_def enum_of_levels_def)

lemma telegraph_closest:
  "get_closest_value telegraph 1 = \<lparr>num = 3, speed = 1\<rparr>"
  "get_closest_value telegraph (1 / 5) = \<lparr>num = 1, speed = 0.21\<rparr>"
  by (simp_all add: telegraph_def enum_of_levels_def closest_value_def)

lemma telegraph_from_index:
  "from_index telegraph 2 = Some \<lparr>num = 2, speed = 0.9\<rparr>"
  "from_index telegraph 0 = Some \<lparr>num = 0, speed = 0\<rparr>"
  by (simp_all add: telegraph_def enum_of_levels_def level_of_index_def)

theorem increment_speed_keeps_maximum_witness:
  "num (FULL_AHEAD telegraph) = 2
   \<and> fst (increment_speed telegraph (- 1) 1 cruising) = None
   \<and> chadburn_index (snd (increment_speed telegraph (- 1) 1 cruising)) = 3
   \<and> actions (snd (increment_speed telegraph (- 1) 1 cruising)) = [SetSpeed PORT 1, SetSpeed STBD 1]"
proof -
  have above: "num (FULL_AHEAD telegraph) < num (get_closest_value telegraph 1)"
    by (simp add: telegraph_ends telegraph_closest)
  from increment_speed_keeps_maximum [OF above, of cruising] show ?thesis
    by (simp add: telegraph_ends telegraph_closest cruising_def)
qed

lemma increment_speed_level:
  "chadburn (snd (increment_speed E v mean_speed self)) =
     (if chadburn_index (snd (increment_speed E v mean_speed self)) = num (get_closest_value E mean_speed)
      then get_closest_value E mean_speed
      else (case from_index E (chadburn_index (snd (increment_speed E v mean_speed self))) of
              Some c \<Rightarrow> c
            | None \<Rightarrow> get_closest_value E mean_speed))"
  by (simp add: increment_speed_def Let_def step_chadburn_def commit_chadburn_simps
      split: option.splits)

text \<open>
  C10: in \<open>increment_speed\<close> only the argument \<open>-1\<close> steps the index upward (by one,
  unless the resynchronised index is at or above FULL\_AHEAD's); every other argument
  steps it downward (by one, unless the resynchronised index is at or below
  FULL\_ASTERN's). In both cases, once the level of the resulting index is found (the
  index did not move, or \<open>from_index\<close> returns a level for it), the call returns
  normally and commits the resulting level's speed to the port and to the starboard
  motor, and nothing else. The resulting level is the closest level when the index did
  not move, and the level \<open>from_index\<close> returns for the stepped index otherwise.
\<close>

theorem increment_speed_direction:
  "(v = - 1 \<longrightarrow>
      chadburn_index (snd (increment_speed E v mean_speed self)) =
        (if num (get_closest_value E mean_speed) < num (FULL_AHEAD E)
         then num (get_closest_value E mean_speed) + 1 else num (get_closest_value E mean_speed)))
   \<and> (v \<noteq> - 1 \<longrightarrow>
      chadburn_index (snd (increment_speed E v mean_speed self)) =
        (if num (FULL_ASTERN E) < num (get_closest_value E mean_speed)
         then num (get_closest_value E mean_speed) - 1 else num (get_closest_value E mean_speed)))
   \<and> (chadburn_index (snd (increment_speed E v mean_speed self))
         = num (get_closest_value E mean_speed)
        \<or> from_index E (chadburn_index (snd (increment_speed E v mean_speed self))) \<noteq> None \<longrightarrow>
      fst (increment_speed E v mean_speed self) = None
      \<and> actions (snd (increment_speed E v mean_speed self))
          = actions self
              @ [SetSpeed PORT (speed (chadburn (snd (increment_speed E v mean_speed self)))),
                 SetSpeed STBD (speed (chadburn (snd (increment_speed E v mean_speed self))))])
   \<and> (chadburn_index (snd (increment_speed E v mean_speed self))
         = num (get_closest_value E mean_speed) \<longrightarrow>
      chadburn (snd (increment_speed E v mean_speed self)) = get_closest_value E mean_speed
      \<and> actions (snd (increment_speed E v mean_speed self))
          = actions self
              @ [SetSpeed PORT (speed (get_closest_value E mean_speed)),
                 SetSpeed STBD (speed (get_closest_value E mean_speed))])
   \<and> (chadburn_index (snd (increment_speed E v mean_speed self))
         \<noteq> num (get_closest_value E mean_speed)
        \<and> from_index E (chadburn_index (snd (increment_speed E v mean_speed self))) = Some c \<longrightarrow>
      chadburn (snd (increment_speed E v mean_speed self)) = c
      \<and> actions (snd (increment_speed E v mean_speed self))
          = actions self @ [SetSpeed PORT (speed c), SetSpeed STBD (speed c)])"
proof -
  let ?r = "increment_speed E v mean_speed self"
  let ?c0 = "get_closest_value E mean_speed"
  note idx = increment_speed_index [of E v mean_speed self]
  note lvl = increment_speed_level [of E v mean_speed self]
  have ret: "chadburn_index (snd ?r) = num ?c0 \<or> from_index E (chadburn_index (snd ?r)) \<noteq> None
      \<Longrightarrow> fst ?r = None"
    by (rule increment_speed_returns)
  have com: "fst ?r = None \<Longrightarrow> actions (snd ?r)
      = actions self @ [SetSpeed PORT (speed (chadburn (snd ?r))), SetSpeed STBD (speed (chadburn (snd ?r)))]"
    by (rule increment_speed_commit)
  have same: "chadburn_index (snd ?r) = num ?c0 \<Longrightarrow> chadburn (snd ?r) = ?c0"
    using lvl by simp
  have stepped: "chadburn_index (snd ?r) \<noteq> num ?c0 \<Longrightarrow>
      from_index E (chadburn_index (snd ?r)) = Some c \<Longrightarrow> chadburn (snd ?r) = c"
    using lvl by simp
  show ?thesis
    using idx ret com same stepped by (auto simp del: increment_speed_index)
qed

lemma telegraph_down:
  "chadburn (snd (increment_speed telegraph 1 (1 / 5) cruising)) = \<lparr>num = 0, speed = 0\<rparr>"
  by (simp add: increment_speed_def Let_def telegraph_ends telegraph_closest telegraph_from_index
      step_chadburn_def commit_chadburn_def)

lemma telegraph_up:
  "chadburn (snd (increment_speed telegraph (- 1) (1 / 5) cruising)) = \<lparr>num = 2, speed = 0.9\<rparr>"
  by (simp add: increment_speed_def Let_def telegraph_ends telegraph_closest telegraph_from_index
      step_chadburn_def commit_chadburn_def)

theorem increment_speed_direction_witness:
  "chadburn_index (snd (increment_speed telegraph 1 (1 / 5) cruising)) = 0
   \<and> actions (snd (increment_speed telegraph 1 (1 / 5) cruising)) = [SetSpeed PORT 0, SetSpeed STBD 0]
   \<and> chadburn_index (snd (increment_speed telegraph (- 1) (1 / 5) cruising)) = 2
   \<and> actions (snd (increment_speed telegraph (- 1) (1 / 5) cruising))
       = [SetSpeed PORT 0.9, SetSpeed STBD 0.9]"
proof -
  have idle: "actions cruising = []" by (simp add: cruising_def)
  note down = increment_speed_direction [of 1 telegraph "1 / 5" cruising]
  note up = increment_speed_direction [of "- 1" telegraph "1 / 5" cruising]
  have i0: "chadburn_index (snd (increment_speed telegraph 1 (1 / 5) cruising)) = 0"
    using down by (simp add: telegraph_ends telegraph_closest)
  have i2: "chadburn_index (snd (increment_speed telegraph (- 1) (1 / 5) cruising)) = 2"
    using up by (simp add: telegraph_ends telegraph_closest)
  have a0: "actions (snd (increment_speed telegraph 1 (1 / 5) cruising)) = [SetSpeed PORT 0, SetSpeed STBD 0]"
    using down by (simp add: i0 telegraph_from_index telegraph_down idle)
  have a2: "actions (snd (increment_speed telegraph (- 1) (1 / 5) cruising))
       = [SetSpeed PORT 0.9, SetSpeed STBD 0.9]"
    using up by (simp add: i2 telegraph_from_index telegraph_up idle)
  from i0 a0 i2 a2 show ?thesis by simp
qed

subsection \<open>set\_heading\<close>




















end
